theory Spec2Isabelle
  imports Main
begin

section \<open>safeget: a shallow embedding of the verification pipeline\<close>

text \<open>
  The definitions below follow \<^verbatim>\<open>safeget.py\<close> function by function and keep its
  names. Python strings are \<^typ>\<open>string\<close>; an exception is a value of the type
  \<open>error\<close>; the module's globals and the outside world the program changes (files,
  console, keyring) are fields of the record \<open>state\<close>; what the program only asks of
  its libraries and of the outside world (urllib, hashlib, re, gpg, the network) is a
  field of the record \<open>world\<close>, so every theorem holds whatever those answer.
  The diagnostics of \<^verbatim>\<open>verbose()\<close> and \<^verbatim>\<open>debug()\<close>, printed only under a flag, are
  not part of the model; \<^verbatim>\<open>print\<close>, \<^verbatim>\<open>notice()\<close> and \<^verbatim>\<open>warn()\<close> are.
\<close>

subsection \<open>Python strings\<close>

definition NL :: char where
  "NL = CHR 0x0A"

definition TAB :: char where
  "TAB = CHR 0x09"

definition BACKSLASH :: char where
  "BACKSLASH = CHR 0x5C"

definition CR :: char where
  "CR = CHR 0x0D"

text \<open>\<^verbatim>\<open>s.startswith(p)\<close>.\<close>

definition startswith :: "string \<Rightarrow> string \<Rightarrow> bool" where
  "startswith s p = (take (length p) s = p)"

text \<open>\<^verbatim>\<open>sub in s\<close>: \<open>sub\<close> occurs in \<open>s\<close> as a contiguous run of characters.\<close>

fun contains :: "string \<Rightarrow> string \<Rightarrow> bool" where
  "contains sub [] = (sub = [])"
| "contains sub (c # cs) = (startswith (c # cs) sub \<or> contains sub cs)"

text \<open>\<^verbatim>\<open>s.lower()\<close> on the ASCII letters.\<close>

definition lower_char :: "char \<Rightarrow> char" where
  "lower_char c =
     (case map_of (zip ''ABCDEFGHIJKLMNOPQRSTUVWXYZ'' ''abcdefghijklmnopqrstuvwxyz'') c of
        Some l \<Rightarrow> l
      | None \<Rightarrow> c)"

definition lower :: "string \<Rightarrow> string" where
  "lower s = map lower_char s"

text \<open>\<^verbatim>\<open>s.split(c)\<close> for a separator of one character: never an empty list.\<close>

fun split_on :: "char \<Rightarrow> string \<Rightarrow> string list" where
  "split_on c [] = [[]]"
| "split_on c (x # xs) =
     (if x = c then [] # split_on c xs
      else (case split_on c xs of
              [] \<Rightarrow> [[x]]
            | p # ps \<Rightarrow> (x # p) # ps))"

text \<open>
  \<^verbatim>\<open>s.replace(old, new)\<close>: the occurrences of \<open>old\<close> are found from the left and do
  not overlap; the text put in is not searched again. With an empty \<open>old\<close>, Python
  puts \<open>new\<close> before every character and at the end.
\<close>

function replace_nonempty :: "string \<Rightarrow> string \<Rightarrow> string \<Rightarrow> string" where
  "replace_nonempty old new [] = []"
| "replace_nonempty old new (c # cs) =
     (if old \<noteq> [] \<and> startswith (c # cs) old
      then new @ replace_nonempty old new (drop (length old) (c # cs))
      else c # replace_nonempty old new cs)"
  by pat_completeness auto
termination
  by (relation "measure (\<lambda>(old, new, s). length s)") (auto simp: neq_Nil_conv)

definition replace :: "string \<Rightarrow> string \<Rightarrow> string \<Rightarrow> string" where
  "replace s old new =
     (if old = [] then new @ concat (map (\<lambda>c. c # new) s) else replace_nonempty old new s)"

subsection \<open>Exceptions, arguments, the outside world, the program state\<close>

datatype error =
    SafegetException string
  | ValueError string
  | AssertionError
  | UnboundLocalError string
  | UnicodeDecodeError
  | FileNotFoundError string
  | CalledProcessError
  | EOFError
  | OtherError string

text \<open>\<^verbatim>\<open>fail(msg)\<close> raises \<^verbatim>\<open>SafegetException(f'Failed: {msg}')\<close>.\<close>

definition fail :: "string \<Rightarrow> error" where
  "fail msg = SafegetException (''Failed: '' @ msg)"

text \<open>
  The parsed command line (\<^verbatim>\<open>args\<close>). An option given with \<^verbatim>\<open>nargs='*'\<close> is
  \<^verbatim>\<open>None\<close> when absent and a list, possibly empty, when present.
\<close>

record args =
  args_target :: string
  args_size :: "string option"
  args_hash :: "string list option"
  args_pubkey :: "string list option"
  args_sig :: "string list option"
  args_signedmsg :: "string list option"
  args_signedhash :: "string list option"
  args_after :: "string list option"
  args_run :: bool
  args_tries :: int
  args_verbose :: bool
  args_debug :: bool
  args_onehost :: bool
  args_overwrite_ok :: bool

text \<open>Python's truth value of an optional string or list: \<^verbatim>\<open>None\<close> and the empty
  sequence are false.\<close>

definition truthy :: "'a list option \<Rightarrow> bool" where
  "truthy v = (case v of None \<Rightarrow> False | Some xs \<Rightarrow> \<not> List.null xs)"

definition items :: "'a list option \<Rightarrow> 'a list" where
  "items v = (case v of None \<Rightarrow> [] | Some xs \<Rightarrow> xs)"

text \<open>What \<^verbatim>\<open>urlparse\<close> returns, as far as the program reads it.\<close>

record url_parts =
  scheme :: string
  netloc :: string

text \<open>The answer of one \<^verbatim>\<open>urlopen(url)\<close> followed by reading the body.\<close>

datatype response =
    Body string
  | HTTPError string
  | URLError string
  | Raises error

text \<open>
  The globals \<^verbatim>\<open>target_host\<close> and \<^verbatim>\<open>localpath_hash_cache\<close>, the files (path to
  content), the console (what was printed, the lines still to be typed), the urls
  requested so far, the keys gpg has imported, and the number of temporary names drawn.
\<close>

record state =
  target_host :: "string option"
  localpath_hash_cache :: "string \<rightharpoonup> string"
  files :: "string \<rightharpoonup> string"
  stdout :: string
  stdin :: "string list"
  requests :: "string list"
  keyring :: "string list"
  names_drawn :: nat

text \<open>
  The libraries and the outside world, as functions the program calls:
  \<^item> \<open>urlparse\<close>: \<^verbatim>\<open>urllib.parse.urlparse\<close>, which may raise;
  \<^item> \<open>urlopen url n\<close>: the answer to the request for \<open>url\<close> made after \<open>n\<close> earlier
    requests (\<^verbatim>\<open>str(error.reason)\<close> for the two errors \<^verbatim>\<open>download_url\<close> traps);
  \<^item> \<open>algorithms_available\<close>, \<open>hashlib_new algo\<close> (what \<^verbatim>\<open>hashlib.new(algo)\<close> raises,
    if anything) and \<open>hexdigest algo data\<close>: \<^verbatim>\<open>hashlib\<close>;
  \<^item> \<open>findall pattern content\<close>: \<^verbatim>\<open>re.findall(pattern, content, flags=re.DOTALL)\<close>;
  \<^item> \<open>gpg_path\<close>, and \<open>gpg_import\<close>, \<open>gpg_verify\<close>, \<open>gpg_verify_stdin\<close>: what
    \<^verbatim>\<open>run(gpg_path, ...)\<close> raises, if anything, given the keys imported so far and the
    content of the files named on its command line or given as its input;
  \<^item> \<open>utf8\<close>: whether a file's bytes decode as text;
  \<^item> \<open>abspath\<close>, \<open>TMP_DIR\<close>, \<open>random_string\<close>: \<^verbatim>\<open>os.path.abspath\<close>, the temporary
    directory, and the \<open>n\<close>-th random name \<^verbatim>\<open>get_random_string(8)\<close> returns;
  \<^item> \<open>testing\<close>: the module's global of that name;
  \<^item> \<open>install_dependencies\<close>, \<open>run_target\<close>, \<open>run_command_after\<close>: the three steps of
    \<^verbatim>\<open>start_safeget\<close> that install gpg and run what was verified, which may change
    the state in any way.
\<close>

record world =
  urlparse :: "string \<Rightarrow> error + url_parts"
  urlopen :: "string \<Rightarrow> nat \<Rightarrow> response"
  algorithms_available :: "string list"
  hashlib_new :: "string \<Rightarrow> error option"
  hexdigest :: "string \<Rightarrow> string \<Rightarrow> error + string"
  findall :: "string \<Rightarrow> string \<Rightarrow> string list"
  gpg_path :: string
  gpg_import :: "string list \<Rightarrow> string \<Rightarrow> error option"
  gpg_verify :: "string list \<Rightarrow> string \<Rightarrow> string \<Rightarrow> error option"
  gpg_verify_stdin :: "string list \<Rightarrow> string \<Rightarrow> error option"
  utf8 :: "string \<Rightarrow> bool"
  abspath :: "string \<Rightarrow> string"
  TMP_DIR :: string
  random_string :: "nat \<Rightarrow> string"
  testing :: bool
  install_dependencies :: "state \<Rightarrow> (error + unit) \<times> state"
  run_target :: "state \<Rightarrow> (error + unit) \<times> state"
  run_command_after :: "state \<Rightarrow> (error + unit) \<times> state"

type_synonym 'a result = "(error + 'a) \<times> state"

text \<open>\<^verbatim>\<open>print(msg)\<close>, \<^verbatim>\<open>notice(msg)\<close> (no newline) and \<^verbatim>\<open>warn(msg)\<close>.\<close>

definition print :: "string \<Rightarrow> state \<Rightarrow> state" where
  "print msg st = st\<lparr>stdout := stdout st @ msg @ [NL]\<rparr>"

definition notice :: "string \<Rightarrow> state \<Rightarrow> state" where
  "notice msg st = st\<lparr>stdout := stdout st @ msg\<rparr>"

definition warn :: "string \<Rightarrow> state \<Rightarrow> state" where
  "warn msg st = print (''Warning: '' @ msg) (print [] st)"

subsection \<open>Sources\<close>

definition is_url :: "string \<Rightarrow> bool" where
  "is_url s = contains ''://'' s"

text \<open>
  \<^verbatim>\<open>host, _ = parts.netloc.split(':')\<close> unpacks a list of exactly two strings and
  raises \<^verbatim>\<open>ValueError\<close> on any other length.
\<close>

definition parse_host :: "world \<Rightarrow> string \<Rightarrow> error + string" where
  "parse_host w url =
     (case urlparse w url of
        Inl e \<Rightarrow> Inl e
      | Inr parts \<Rightarrow>
          if CHR '':'' \<in> set (netloc parts) then
            (case split_on CHR '':'' (netloc parts) of
               [host, _] \<Rightarrow> Inr host
             | [_] \<Rightarrow> Inl (ValueError ''not enough values to unpack (expected 2, got 1)'')
             | _ \<Rightarrow> Inl (ValueError ''too many values to unpack (expected 2)''))
          else Inr (netloc parts))"

definition SAFE_PROTOCOLS :: "string list" where
  "SAFE_PROTOCOLS = [''https'', ''sftp'', ''file'']"

text \<open>\<^verbatim>\<open>sep.join(xs)\<close>.\<close>

fun join :: "string \<Rightarrow> string list \<Rightarrow> string" where
  "join sep [] = []"
| "join sep [x] = x"
| "join sep (x # y # ys) = x @ sep @ join sep (y # ys)"

text \<open>
  \<^verbatim>\<open>verify_source(source)\<close>. The exception leaves the state as it was when raised.
\<close>

definition verify_source :: "world \<Rightarrow> args \<Rightarrow> string \<Rightarrow> state \<Rightarrow> unit result" where
  "verify_source w a source st =
     (if is_url source then
        (case urlparse w source of
           Inl e \<Rightarrow> (Inl e, st)
         | Inr parts \<Rightarrow>
             if scheme parts \<notin> set SAFE_PROTOCOLS then
               (Inl (fail (''url does not use a safe protocol ('' @ join '' or '' SAFE_PROTOCOLS
                            @ ''): '' @ source)), st)
             else
               (case parse_host w source of
                  Inl e \<Rightarrow> (Inl e, st)
                | Inr host \<Rightarrow>
                    (case (if target_host st = None then
                             (if source \<noteq> args_target a
                              then Inl (fail ''safeget error: target source must be verified first'')
                              else Inr (st\<lparr>target_host := Some host\<rparr>))
                           else Inr st) of
                       Inl e \<Rightarrow> (Inl e, st)
                     | Inr st1 \<Rightarrow>
                         if \<not> args_onehost a then
                           (if source \<noteq> args_target a \<and> target_host st1 = Some host then
                              (Inr (),
                               warn (''url is same host as target: '' @ source
                                     @ ''. Use --onehost to skip this warning.'')
                                 (if args_debug a then print (''target: '' @ args_target a) st1
                                  else st1))
                            else (Inr (), st1))
                         else (Inr (), st1))))
      else
        (if target_host st = None then (Inr (), st\<lparr>target_host := Some (args_target a)\<rparr>)
         else (Inr (), st)))"

subsection \<open>Downloading\<close>

definition exists_path :: "state \<Rightarrow> string \<Rightarrow> bool" where
  "exists_path st path = (files st path \<noteq> None)"

definition getsize :: "state \<Rightarrow> string \<Rightarrow> error + nat" where
  "getsize st path =
     (case files st path of None \<Rightarrow> Inl (FileNotFoundError path) | Some c \<Rightarrow> Inr (length c))"

text \<open>\<^verbatim>\<open>input(prompt)\<close> prints the prompt and reads one line; at the end of input it
  raises \<^verbatim>\<open>EOFError\<close>.\<close>

definition input :: "string \<Rightarrow> state \<Rightarrow> string result" where
  "input prompt st =
     (case stdin st of
        [] \<Rightarrow> (Inl EOFError, notice prompt st)
      | l # ls \<Rightarrow> (Inr l, (notice prompt st)\<lparr>stdin := ls\<rparr>))"

definition ok_to_write :: "world \<Rightarrow> string \<Rightarrow> state \<Rightarrow> bool result" where
  "ok_to_write w path st =
     (if exists_path st path \<and> getsize st path \<noteq> Inr 0 \<and> \<not> testing w then
        (case input ([NL] @ ''Ok to replace '' @ abspath w path @ ''? '') st of
           (Inl e, st1) \<Rightarrow> (Inl e, st1)
         | (Inr answer, st1) \<Rightarrow>
             (let ok = (lower answer \<in> set [''y'', ''yes'']) in
              if \<not> ok then (Inl (fail (''did not replace '' @ abspath w path)), st1)
              else (Inr ok, st1)))
      else (Inr True, st))"

text \<open>
  \<^verbatim>\<open>download_url(url, localpath)\<close> returns \<^verbatim>\<open>(ok, reason)\<close>; it traps
  \<^verbatim>\<open>HTTPError\<close> and \<^verbatim>\<open>URLError\<close> and lets any other exception through.
\<close>

definition download_url :: "world \<Rightarrow> string \<Rightarrow> string \<Rightarrow> state \<Rightarrow> (bool \<times> string option) result" where
  "download_url w url localpath st =
     (let st1 = st\<lparr>requests := requests st @ [url]\<rparr> in
      case urlopen w url (length (requests st)) of
        Body data \<Rightarrow> (Inr (True, None), st1\<lparr>files := (files st1)(localpath \<mapsto> data)\<rparr>)
      | HTTPError reason \<Rightarrow> (Inr (False, Some reason), st1)
      | URLError reason \<Rightarrow> (Inr (False, Some reason), st1)
      | Raises e \<Rightarrow> (Inl e, st1))"

text \<open>The loop \<^verbatim>\<open>while attempts < max_tries and not ok\<close> of \<^verbatim>\<open>download\<close>; it
  returns \<^verbatim>\<open>(ok, reason, attempts)\<close>.\<close>

function download_loop ::
  "world \<Rightarrow> string \<Rightarrow> string \<Rightarrow> int \<Rightarrow> int \<Rightarrow> bool \<Rightarrow> string option \<Rightarrow> state
   \<Rightarrow> (bool \<times> string option \<times> int) result" where
  "download_loop w url localpath max_tries attempts ok reason st =
     (if attempts < max_tries \<and> \<not> ok then
        (case download_url w url localpath st of
           (Inl e, st1) \<Rightarrow> (Inl e, st1)
         | (Inr (ok1, reason1), st1) \<Rightarrow>
             download_loop w url localpath max_tries (attempts + 1) ok1 reason1 st1)
      else (Inr (ok, reason, attempts), st))"
  by pat_completeness auto
termination
  by (relation "measure (\<lambda>(w, url, localpath, max_tries, attempts, ok, reason, st).
                           nat (max_tries - attempts))") auto

declare download_loop.simps [simp del]

text \<open>\<^verbatim>\<open>str(reason)\<close> of a reason that may still be \<^verbatim>\<open>None\<close>.\<close>

definition str_reason :: "string option \<Rightarrow> string" where
  "str_reason reason = (case reason of None \<Rightarrow> ''None'' | Some r \<Rightarrow> r)"

definition is_digit :: "char \<Rightarrow> bool" where
  "is_digit c = (c \<in> set ''0123456789'')"

text \<open>
  Group 1 of \<^verbatim>\<open>re.match('^\\[Errno \\d+\\] (.*)$', s)\<close>, if the text matches: \<^verbatim>\<open>.\<close>
  matches no newline, and \<^verbatim>\<open>$\<close> matches at the end or before a last newline.
\<close>

definition errno_match :: "string \<Rightarrow> string option" where
  "errno_match s =
     (if startswith s ''[Errno '' then
        (let r = dropWhile is_digit (drop 7 s) in
         if takeWhile is_digit (drop 7 s) \<noteq> [] \<and> startswith r ''] '' then
           (let g = drop 2 r in
            if NL \<notin> set g then Some g
            else if NL \<notin> set (butlast g) then Some (butlast g)
            else None)
         else None)
      else None)"

text \<open>\<^verbatim>\<open>get_details_for_failure(url, attempts, reason)\<close>: the number of attempts goes
  to \<^verbatim>\<open>debug()\<close> only.\<close>

definition get_details_for_failure :: "string \<Rightarrow> int \<Rightarrow> string option \<Rightarrow> string" where
  "get_details_for_failure url attempts reason =
     (let reason1 = (case errno_match (str_reason reason) of
                       Some g \<Rightarrow> ''Error: '' @ g
                     | None \<Rightarrow> str_reason reason);
          error = ''Unable to safely get '' @ url @ ''.'';
          suggestions = ''Suggestions: Check connections or try again later.''
      in error @ [NL, TAB] @ reason1 @ [NL, TAB] @ suggestions)"

definition download :: "world \<Rightarrow> args \<Rightarrow> string \<Rightarrow> string \<Rightarrow> state \<Rightarrow> unit result" where
  "download w a url localpath st =
     (case (if args_overwrite_ok a then (Inr True, st) else ok_to_write w localpath st) of
        (Inl e, st1) \<Rightarrow> (Inl e, st1)
      | (Inr go, st1) \<Rightarrow>
          if go then
            (case verify_source w a url st1 of
               (Inl e, st2) \<Rightarrow> (Inl e, st2)
             | (Inr _, st2) \<Rightarrow>
                 (case download_loop w url localpath (args_tries a) 0 False None st2 of
                    (Inl e, st3) \<Rightarrow> (Inl e, st3)
                  | (Inr (ok, reason, attempts), st3) \<Rightarrow>
                      if \<not> ok then (Inl (fail (get_details_for_failure url attempts reason)), st3)
                      else (Inr (), st3)))
          else (Inr (), st1))"

subsection \<open>Files and armored blocks\<close>

text \<open>
  A file opened in text mode is read with universal newlines: a carriage return followed
  by a line feed, and a carriage return alone, are read as one line feed. Writing in text
  mode changes nothing where the line separator is the line feed.
\<close>

fun universal_newlines :: "string \<Rightarrow> string" where
  "universal_newlines [] = []"
| "universal_newlines [c] = [if c = CR then NL else c]"
| "universal_newlines (c # d # cs) =
     (if c = CR then
        (if d = NL then NL # universal_newlines cs else NL # universal_newlines (d # cs))
      else c # universal_newlines (d # cs))"

text \<open>\<^verbatim>\<open>readfile(localpath)\<close> reads the file as text.\<close>

definition readfile :: "world \<Rightarrow> string \<Rightarrow> state \<Rightarrow> error + string" where
  "readfile w localpath st =
     (case files st localpath of
        None \<Rightarrow> Inl (FileNotFoundError localpath)
      | Some data \<Rightarrow>
          if utf8 w data then Inr (universal_newlines data) else Inl UnicodeDecodeError)"

definition get_temp_filename :: "world \<Rightarrow> state \<Rightarrow> string \<times> state" where
  "get_temp_filename w st =
     (TMP_DIR w @ ''/'' @ random_string w (names_drawn st),
      st\<lparr>names_drawn := Suc (names_drawn st)\<rparr>)"

text \<open>
  \<^verbatim>\<open>clean_gpg_data(path)\<close>: a file of at most 100 bytes is refused; a longer one is
  rewritten after the seven replacements, unless the assertion fails.
\<close>

definition clean_gpg_data :: "world \<Rightarrow> string \<Rightarrow> state \<Rightarrow> bool result" where
  "clean_gpg_data w path st =
     (case getsize st path of
        Inl e \<Rightarrow> (Inl e, st)
      | Inr n \<Rightarrow>
          (let ok = (100 < n) in
           if ok then
             (case readfile w path st of
                Inl e \<Rightarrow> (Inl e, st)
              | Inr text0 \<Rightarrow>
                  (let text1 = replace text0 ''^/s*'' [];
                       text2 = replace text1 [BACKSLASH, CHR ''n''] [NL];
                       text3 = replace text2 [BACKSLASH, CHR ''r''] [];
                       text4 = replace text3 ''<p>'' [NL];
                       text5 = replace text4 ''</p>'' [NL];
                       text6 = replace text5 ''<br>'' [NL];
                       text7 = replace text6 ''<br/>'' [NL]
                   in if contains [BACKSLASH, CHR ''n''] text7 then (Inl AssertionError, st)
                      else (Inr ok, st\<lparr>files := (files st)(path \<mapsto> text7)\<rparr>)))
           else (Inr ok, st)))"

text \<open>The loop of \<^verbatim>\<open>extract_patterns\<close>: every match goes to a temporary file of its
  own.\<close>

fun write_matches :: "world \<Rightarrow> string list \<Rightarrow> string list \<Rightarrow> state \<Rightarrow> string list \<times> state" where
  "write_matches w [] paths st = (paths, st)"
| "write_matches w (text # matches) paths st =
     (case get_temp_filename w st of
        (path, st1) \<Rightarrow>
          write_matches w matches (paths @ [path]) (st1\<lparr>files := (files st1)(path \<mapsto> text)\<rparr>))"

definition extract_patterns :: "world \<Rightarrow> string \<Rightarrow> string \<Rightarrow> state \<Rightarrow> string list result" where
  "extract_patterns w pattern localpath st =
     (case readfile w localpath st of
        Inl e \<Rightarrow> (Inl e, st)
      | Inr content \<Rightarrow>
          (case write_matches w (findall w pattern content) [] st of
             (paths, st1) \<Rightarrow> (Inr paths, st1)))"

definition DQUOTE :: char where
  "DQUOTE = CHR 0x22"

text \<open>
  The loop of \<^verbatim>\<open>save_patterns(pattern, sources)\<close>, with the lists \<^verbatim>\<open>paths\<close> and
  \<^verbatim>\<open>online_paths\<close> built so far. Only \<^verbatim>\<open>UnicodeDecodeError\<close> is passed over.
\<close>

fun save_patterns_loop ::
  "world \<Rightarrow> args \<Rightarrow> string \<Rightarrow> string list \<Rightarrow> string list \<Rightarrow> string list \<Rightarrow> state
   \<Rightarrow> (string list \<times> string list) result" where
  "save_patterns_loop w a pattern [] paths online_paths st = (Inr (paths, online_paths), st)"
| "save_patterns_loop w a pattern (source # sources) paths online_paths st =
     (case (if is_url source then
              (case verify_source w a source st of
                 (Inl e, st1) \<Rightarrow> (Inl e, st1)
               | (Inr _, st1) \<Rightarrow>
                   (case get_temp_filename w st1 of
                      (path, st2) \<Rightarrow>
                        (case download w a source path st2 of
                           (Inl e, st3) \<Rightarrow> (Inl e, st3)
                         | (Inr _, st3) \<Rightarrow> (Inr (path, online_paths @ [path]), st3))))
            else if \<not> exists_path st source
                 then (Inl (fail (''file not found: '' @ source)), st)
                 else (Inr (source, online_paths), st)) of
        (Inl e, st1) \<Rightarrow> (Inl e, st1)
      | (Inr (path, online_paths1), st1) \<Rightarrow>
          (case extract_patterns w pattern path st1 of
             (Inl UnicodeDecodeError, st2) \<Rightarrow>
               save_patterns_loop w a pattern sources paths online_paths1 st2
           | (Inl e, st2) \<Rightarrow> (Inl e, st2)
           | (Inr pattern_paths, st2) \<Rightarrow>
               if pattern_paths = [] then
                 (Inl (fail (''no '' @ [DQUOTE] @ pattern @ [DQUOTE] @ '' patterns found: ''
                             @ path)), st2)
               else save_patterns_loop w a pattern sources (paths @ pattern_paths)
                      online_paths1 st2))"

definition save_patterns ::
  "world \<Rightarrow> args \<Rightarrow> string \<Rightarrow> string list \<Rightarrow> state \<Rightarrow> (string list \<times> string list) result" where
  "save_patterns w a pattern sources st = save_patterns_loop w a pattern sources [] [] st"

text \<open>\<^verbatim>\<open>for path in paths: os.remove(path)\<close>.\<close>

fun remove_all :: "string list \<Rightarrow> state \<Rightarrow> unit result" where
  "remove_all [] st = (Inr (), st)"
| "remove_all (path # paths) st =
     (if exists_path st path then remove_all paths (st\<lparr>files := (files st)(path := None)\<rparr>)
      else (Inl (FileNotFoundError path), st))"

text \<open>The three patterns, as the raw strings of the source.\<close>

definition armor_pattern :: "string \<Rightarrow> string \<Rightarrow> string" where
  "armor_pattern begin_text end_text =
     [BACKSLASH] @ ''-+'' @ [BACKSLASH] @ ''s*BEGIN PGP '' @ begin_text @ [BACKSLASH] @ ''s*''
     @ [BACKSLASH] @ ''-+.*?'' @ [BACKSLASH] @ ''-+'' @ [BACKSLASH] @ ''s*END PGP '' @ end_text
     @ [BACKSLASH] @ ''s*'' @ [BACKSLASH] @ ''-+'' @ [BACKSLASH] @ ''s*''"

definition PUBKEY_PATTERN :: string where
  "PUBKEY_PATTERN = armor_pattern ''PUBLIC KEY BLOCK'' ''PUBLIC KEY BLOCK''"

definition SIGNED_MESSAGE_PATTERN :: string where
  "SIGNED_MESSAGE_PATTERN = armor_pattern ''SIGNED MESSAGE'' ''SIGNATURE''"

definition SIG_PATTERN :: string where
  "SIG_PATTERN = armor_pattern ''SIGNATURE'' ''SIGNATURE''"

subsection \<open>Hashes\<close>

text \<open>\<^verbatim>\<open>hash_algorithms()\<close>: the names \<^verbatim>\<open>hashlib\<close> offers, in lower case.\<close>

definition hash_algorithms :: "world \<Rightarrow> string list" where
  "hash_algorithms w = remdups (map lower (algorithms_available w))"

text \<open>\<^verbatim>\<open>hash_data(algo, localpath)\<close>, with its cache.\<close>

definition hash_data :: "world \<Rightarrow> string \<Rightarrow> string \<Rightarrow> state \<Rightarrow> string result" where
  "hash_data w algo localpath st =
     (let source = algo @ '':'' @ localpath in
      case localpath_hash_cache st source of
        Some h \<Rightarrow> (Inr h, st)
      | None \<Rightarrow>
          (case hashlib_new w algo of
             Some e \<Rightarrow> (Inl e, st)
           | None \<Rightarrow>
               (case files st localpath of
                  None \<Rightarrow> (Inl (FileNotFoundError localpath), st)
                | Some data \<Rightarrow>
                    (case hexdigest w algo data of
                       Inl e \<Rightarrow> (Inl e, st)
                     | Inr h \<Rightarrow>
                         (Inr (lower h),
                          st\<lparr>localpath_hash_cache :=
                                (localpath_hash_cache st)(source \<mapsto> lower h)\<rparr>)))))"

definition search_for_hash ::
  "world \<Rightarrow> string \<Rightarrow> string \<Rightarrow> string \<Rightarrow> string \<Rightarrow> state \<Rightarrow> bool result" where
  "search_for_hash w localpath signed_hash_file algo url_content st =
     (case hash_data w algo localpath st of
        (Inl e, st1) \<Rightarrow> (Inl e, st1)
      | (Inr actual_hash, st1) \<Rightarrow> (Inr (contains actual_hash url_content), st1))"

definition compare_hashes :: "string \<Rightarrow> string \<Rightarrow> string \<Rightarrow> bool" where
  "compare_hashes algo expected_hash actual_hash = (expected_hash = actual_hash)"

text \<open>
  \<^verbatim>\<open>parse_hash(text)\<close>: \<^verbatim>\<open>text.partition(':')\<close> cuts at the first colon; what is not
  a url is put in lower case and loses its spaces (\<^verbatim>\<open>re.sub(' ', '', ...)\<close>).
\<close>

definition parse_hash :: "string \<Rightarrow> error + (string \<times> string)" where
  "parse_hash text =
     (let algo = lower (takeWhile (\<lambda>c. c \<noteq> CHR '':'') text);
          hash_or_url = drop 1 (dropWhile (\<lambda>c. c \<noteq> CHR '':'') text)
      in if List.null algo \<or> List.null hash_or_url \<or> startswith hash_or_url ''//'' then
           Inl (fail (''in hash expected '' @ [DQUOTE] @ ''ALGORITHM:...'' @ [DQUOTE]
                      @ '' e.g. '' @ [DQUOTE] @ ''SHA512:D6E8...'' @ [DQUOTE] @ '' or ''
                      @ [DQUOTE] @ ''SHA256:https://...'' @ [DQUOTE] @ '', got '' @ text))
         else if is_url hash_or_url then Inr (algo, hash_or_url)
         else Inr (algo, filter (\<lambda>c. c \<noteq> CHR '' '') (lower hash_or_url)))"

subsection \<open>Running gpg\<close>

text \<open>\<^verbatim>\<open>safeget_run\<close> turns \<^verbatim>\<open>FileNotFoundError\<close> into a failure and lets every other
  exception of \<^verbatim>\<open>run\<close> through.\<close>

definition safeget_run :: "world \<Rightarrow> error option \<Rightarrow> error option" where
  "safeget_run w raised =
     (case raised of
        Some (FileNotFoundError _) \<Rightarrow> Some (fail (''File not found: '' @ gpg_path w))
      | Some e \<Rightarrow> Some e
      | None \<Rightarrow> None)"

text \<open>\<^verbatim>\<open>run(gpg_path, '--import', keypath)\<close>: gpg fails on a file it cannot read.\<close>

definition run_gpg_import :: "world \<Rightarrow> string \<Rightarrow> state \<Rightarrow> error option \<times> state" where
  "run_gpg_import w keypath st =
     (case files st keypath of
        None \<Rightarrow> (Some CalledProcessError, st)
      | Some key \<Rightarrow>
          (case gpg_import w (keyring st) key of
             Some e \<Rightarrow> (Some e, st)
           | None \<Rightarrow> (None, st\<lparr>keyring := keyring st @ [key]\<rparr>)))"

text \<open>\<^verbatim>\<open>run(gpg_path, '--verify', sigpath, local_target)\<close>.\<close>

definition run_gpg_verify :: "world \<Rightarrow> string \<Rightarrow> string \<Rightarrow> state \<Rightarrow> error option" where
  "run_gpg_verify w sigpath local_target st =
     (case files st sigpath of
        None \<Rightarrow> Some CalledProcessError
      | Some signature \<Rightarrow>
          (case files st local_target of
             None \<Rightarrow> Some CalledProcessError
           | Some data \<Rightarrow> gpg_verify w (keyring st) signature data))"

subsection \<open>The verification tiers\<close>

text \<open>The loop of \<^verbatim>\<open>get_pubkeys\<close>.\<close>

fun import_keys :: "world \<Rightarrow> string list \<Rightarrow> state \<Rightarrow> unit result" where
  "import_keys w [] st = (Inr (), st)"
| "import_keys w (keypath # pubkey_paths) st =
     (case clean_gpg_data w keypath st of
        (Inl e, st1) \<Rightarrow> (Inl e, st1)
      | (Inr ok, st1) \<Rightarrow>
          if ok then
            (case run_gpg_import w keypath st1 of
               (raised, st2) \<Rightarrow>
                 (case safeget_run w raised of
                    Some e \<Rightarrow> (Inl e, st2)
                  | None \<Rightarrow> import_keys w pubkey_paths st2))
          else import_keys w pubkey_paths st1)"

definition get_pubkeys :: "world \<Rightarrow> args \<Rightarrow> state \<Rightarrow> unit result" where
  "get_pubkeys w a st =
     (if truthy (args_pubkey a) then
        (case save_patterns w a PUBKEY_PATTERN (items (args_pubkey a)) st of
           (Inl e, st1) \<Rightarrow> (Inl e, st1)
         | (Inr (pubkey_paths, online_pubkeys), st1) \<Rightarrow>
             (case import_keys w pubkey_paths st1 of
                (Inl e, st2) \<Rightarrow> (Inl e, st2)
              | (Inr _, st2) \<Rightarrow>
                  if \<not> args_debug a then remove_all online_pubkeys st2 else (Inr (), st2)))
      else (Inr (), st))"

text \<open>
  The loop of \<^verbatim>\<open>verify_signed_messages\<close>, with the list \<^verbatim>\<open>verified_signedmsg_paths\<close>
  built so far: a path is added when gpg, reading the file as its input, raises nothing.
\<close>

fun verify_signed_messages_loop ::
  "world \<Rightarrow> string list \<Rightarrow> string list \<Rightarrow> state \<Rightarrow> string list result" where
  "verify_signed_messages_loop w [] verified st = (Inr verified, st)"
| "verify_signed_messages_loop w (signedmsg_path # signedmsg_paths) verified st =
     (case clean_gpg_data w signedmsg_path st of
        (Inl e, st1) \<Rightarrow> (Inl e, st1)
      | (Inr ok, st1) \<Rightarrow>
          if ok then
            (case files st1 signedmsg_path of
               None \<Rightarrow> (Inl (FileNotFoundError signedmsg_path), st1)
             | Some infile \<Rightarrow>
                 (case safeget_run w (gpg_verify_stdin w (keyring st1) infile) of
                    Some ex \<Rightarrow> verify_signed_messages_loop w signedmsg_paths verified st1
                  | None \<Rightarrow>
                      verify_signed_messages_loop w signedmsg_paths
                        (verified @ [signedmsg_path]) st1))
          else verify_signed_messages_loop w signedmsg_paths verified st1)"

definition verify_signed_messages :: "world \<Rightarrow> args \<Rightarrow> string \<Rightarrow> state \<Rightarrow> string list result" where
  "verify_signed_messages w a source st =
     (case save_patterns w a SIGNED_MESSAGE_PATTERN [source] st of
        (Inl e, st1) \<Rightarrow> (Inl e, st1)
      | (Inr (signedmsg_paths, online_signed_msgs), st1) \<Rightarrow>
          (case verify_signed_messages_loop w signedmsg_paths [] st1 of
             (Inl e, st2) \<Rightarrow> (Inl e, st2)
           | (Inr verified_signedmsg_paths, st2) \<Rightarrow>
               if \<not> args_debug a then
                 (case remove_all online_signed_msgs st2 of
                    (Inl e, st3) \<Rightarrow> (Inl e, st3)
                  | (Inr _, st3) \<Rightarrow> (Inr verified_signedmsg_paths, st3))
               else (Inr verified_signedmsg_paths, st2)))"

text \<open>
  The loop of \<^verbatim>\<open>verify_signatures\<close>. Whether gpg raises or not, the loop goes on to
  the next signature and keeps no record of the answer.
\<close>

fun verify_signatures_loop :: "world \<Rightarrow> string \<Rightarrow> string list \<Rightarrow> state \<Rightarrow> unit result" where
  "verify_signatures_loop w local_target [] st = (Inr (), st)"
| "verify_signatures_loop w local_target (sigpath # sig_paths) st =
     (case clean_gpg_data w sigpath st of
        (Inl e, st1) \<Rightarrow> (Inl e, st1)
      | (Inr ok, st1) \<Rightarrow>
          if ok then
            (case safeget_run w (run_gpg_verify w sigpath local_target st1) of
               Some ex \<Rightarrow> verify_signatures_loop w local_target sig_paths st1
             | None \<Rightarrow> verify_signatures_loop w local_target sig_paths st1)
          else verify_signatures_loop w local_target sig_paths st1)"

definition verify_signatures :: "world \<Rightarrow> args \<Rightarrow> string \<Rightarrow> state \<Rightarrow> unit result" where
  "verify_signatures w a local_target st =
     (if truthy (args_sig a) then
        (case save_patterns w a SIG_PATTERN (items (args_sig a)) st of
           (Inl e, st1) \<Rightarrow> (Inl e, st1)
         | (Inr (sig_paths, online_sigs), st1) \<Rightarrow>
             (case verify_signatures_loop w local_target sig_paths st1 of
                (Inl e, st2) \<Rightarrow> (Inl e, st2)
              | (Inr _, st2) \<Rightarrow>
                  if \<not> args_debug a then remove_all online_sigs st2 else (Inr (), st2)))
      else (Inr (), st))"

text \<open>\<^verbatim>\<open>check_signed_hash_file\<close>, local to \<^verbatim>\<open>verify_signed_hashes\<close>: an exception of the
  search is passed over, one of the cleaning or of the reading is not.\<close>

definition check_signed_hash_file ::
  "world \<Rightarrow> string \<Rightarrow> string \<Rightarrow> string \<Rightarrow> state \<Rightarrow> bool result" where
  "check_signed_hash_file w localpath signed_hash_file algo st =
     (case clean_gpg_data w signed_hash_file st of
        (Inl e, st1) \<Rightarrow> (Inl e, st1)
      | (Inr ok, st1) \<Rightarrow>
          if ok then
            (case readfile w signed_hash_file st1 of
               Inl e \<Rightarrow> (Inl e, st1)
             | Inr url_content \<Rightarrow>
                 (case search_for_hash w localpath signed_hash_file algo url_content st1 of
                    (Inl e, st2) \<Rightarrow> (Inr False, st2)
                  | (Inr matched, st2) \<Rightarrow> (Inr matched, st2)))
          else (Inr False, st1))"

text \<open>The inner loop of \<^verbatim>\<open>verify_signed_hashes\<close>, over the verified files of one
  source.\<close>

fun signed_hash_files_loop ::
  "world \<Rightarrow> string \<Rightarrow> string \<Rightarrow> string list \<Rightarrow> bool \<Rightarrow> state \<Rightarrow> bool result" where
  "signed_hash_files_loop w localpath algo [] matched st = (Inr matched, st)"
| "signed_hash_files_loop w localpath algo (signed_hash_file # signed_data_files) matched st =
     (if \<not> matched then
        (case check_signed_hash_file w localpath signed_hash_file algo st of
           (Inl e, st1) \<Rightarrow> (Inl e, st1)
         | (Inr matched1, st1) \<Rightarrow>
             signed_hash_files_loop w localpath algo signed_data_files matched1 st1)
      else signed_hash_files_loop w localpath algo signed_data_files matched st)"

text \<open>The outer loop, over \<^verbatim>\<open>args.signedhash\<close>.\<close>

fun signed_hashes_loop ::
  "world \<Rightarrow> args \<Rightarrow> string \<Rightarrow> string list \<Rightarrow> bool \<Rightarrow> state \<Rightarrow> bool result" where
  "signed_hashes_loop w a localpath [] matched st = (Inr matched, st)"
| "signed_hashes_loop w a localpath (signed_hash_arg # rest) matched st =
     (case parse_hash signed_hash_arg of
        Inl e \<Rightarrow> (Inl e, st)
      | Inr (algo, source) \<Rightarrow>
          if algo \<notin> set (hash_algorithms w) then
            (Inl (fail (algo @ '' not in available hash algorithms: ''
                        @ join '' '' (hash_algorithms w))), st)
          else
            (case verify_signed_messages w a source st of
               (Inl e, st1) \<Rightarrow> (Inl e, st1)
             | (Inr signed_data_files, st1) \<Rightarrow>
                 (case signed_hash_files_loop w localpath algo signed_data_files matched st1 of
                    (Inl e, st2) \<Rightarrow> (Inl e, st2)
                  | (Inr matched1, st2) \<Rightarrow>
                      signed_hashes_loop w a localpath rest matched1 st2)))"

text \<open>\<^verbatim>\<open>f'{xs}'\<close> of a list of strings that hold no quote, backslash or control
  character.\<close>

definition repr_list :: "string list \<Rightarrow> string" where
  "repr_list xs = ''['' @ join '', '' (map (\<lambda>x. [CHR 0x27] @ x @ [CHR 0x27]) xs) @ '']''"

definition verify_signed_hashes :: "world \<Rightarrow> args \<Rightarrow> string \<Rightarrow> state \<Rightarrow> unit result" where
  "verify_signed_hashes w a localpath st =
     (if truthy (args_signedhash a) then
        (case signed_hashes_loop w a localpath (items (args_signedhash a)) False st of
           (Inl e, st1) \<Rightarrow> (Inl e, st1)
         | (Inr matched, st1) \<Rightarrow>
             if \<not> matched then
               (Inl (fail (''no matching signed hash found in ''
                           @ repr_list (items (args_signedhash a)))), st1)
             else (Inr (), st1))
      else (Inr (), st))"

text \<open>
  One entry of \<^verbatim>\<open>args.hash\<close>: it returns \<^verbatim>\<open>matched\<close> and the local variable
  \<^verbatim>\<open>actual_hash\<close>, which only the branch of a hash given on the command line assigns.
\<close>

definition explicit_hash_matched ::
  "world \<Rightarrow> args \<Rightarrow> string \<Rightarrow> string \<Rightarrow> string \<Rightarrow> string option \<Rightarrow> state
   \<Rightarrow> (bool \<times> string option) result" where
  "explicit_hash_matched w a localpath algo hash_or_url actual_hash st =
     (if is_url hash_or_url then
        (case verify_source w a hash_or_url st of
           (Inl e, st1) \<Rightarrow> (Inl e, st1)
         | (Inr _, st1) \<Rightarrow>
             (case get_temp_filename w st1 of
                (hashpath, st2) \<Rightarrow>
                  (case download w a hash_or_url hashpath st2 of
                     (Inl e, st3) \<Rightarrow> (Inl e, st3)
                   | (Inr _, st3) \<Rightarrow>
                       (case readfile w hashpath st3 of
                          Inl e \<Rightarrow> (Inl e, st3)
                        | Inr url_content \<Rightarrow>
                            (case search_for_hash w localpath hashpath algo url_content st3 of
                               (Inl e, st4) \<Rightarrow> (Inl e, st4)
                             | (Inr matched, st4) \<Rightarrow> (Inr (matched, actual_hash), st4))))))
      else if \<not> List.null algo \<and> \<not> List.null hash_or_url then
        (case hash_data w algo localpath st of
           (Inl e, st1) \<Rightarrow> (Inl e, st1)
         | (Inr actual, st1) \<Rightarrow>
             (Inr (compare_hashes algo hash_or_url actual, Some actual), st1))
      else (Inr (False, actual_hash), st))"

text \<open>
  The loop of \<^verbatim>\<open>verify_explicit_hashes\<close>. The message of the failure reads
  \<^verbatim>\<open>actual_hash\<close>, which raises \<^verbatim>\<open>UnboundLocalError\<close> while nothing was assigned.
\<close>

fun explicit_hashes_loop ::
  "world \<Rightarrow> args \<Rightarrow> string \<Rightarrow> string list \<Rightarrow> string option \<Rightarrow> state \<Rightarrow> unit result" where
  "explicit_hashes_loop w a localpath [] actual_hash st = (Inr (), st)"
| "explicit_hashes_loop w a localpath (hash_arg # rest) actual_hash st =
     (case parse_hash hash_arg of
        Inl e \<Rightarrow> (Inl e, st)
      | Inr (algo, hash_or_url) \<Rightarrow>
          if algo \<notin> set (hash_algorithms w) then
            (Inl (fail (algo @ '' not in available hash algorithms: ''
                        @ join '' '' (hash_algorithms w))), st)
          else
            (case explicit_hash_matched w a localpath algo hash_or_url actual_hash st of
               (Inl e, st1) \<Rightarrow> (Inl e, st1)
             | (Inr (matched, actual_hash1), st1) \<Rightarrow>
                 if \<not> matched then
                   (case actual_hash1 of
                      None \<Rightarrow>
                        (Inl (UnboundLocalError
                               ''local variable 'actual_hash' referenced before assignment''),
                         st1)
                    | Some actual \<Rightarrow>
                        (Inl (fail (abspath w localpath
                                    @ '' expected hash did not match actual hash ''
                                    @ algo @ '':'' @ actual)), st1))
                 else explicit_hashes_loop w a localpath rest actual_hash1 st1))"

definition verify_explicit_hashes :: "world \<Rightarrow> args \<Rightarrow> string \<Rightarrow> state \<Rightarrow> unit result" where
  "verify_explicit_hashes w a localpath st =
     (if truthy (args_hash a) then explicit_hashes_loop w a localpath (items (args_hash a)) None st
      else (Inr (), st))"

subsection \<open>Size\<close>

text \<open>
  \<^verbatim>\<open>int(s)\<close> on a string: blanks around the number are dropped, a sign may come
  first, and single underscores may stand between digits.
\<close>

definition is_space :: "char \<Rightarrow> bool" where
  "is_space c = (c \<in> set [CHR '' '', TAB, NL, CHR 0x0B, CHR 0x0C, CHR 0x0D])"

definition strip :: "string \<Rightarrow> string" where
  "strip s = rev (dropWhile is_space (rev (dropWhile is_space s)))"

definition digit_value :: "char \<Rightarrow> nat" where
  "digit_value c = of_char c - 48"

definition nat_of_digits :: "string \<Rightarrow> nat" where
  "nat_of_digits ds = foldl (\<lambda>n c. 10 * n + digit_value c) 0 ds"

definition int_of_str :: "string \<Rightarrow> int option" where
  "int_of_str s =
     (let t = strip s;
          negative = startswith t ''-'';
          body = (if startswith t ''-'' \<or> startswith t ''+'' then drop 1 t else t)
      in if list_all (\<lambda>g. \<not> List.null g \<and> list_all is_digit g) (split_on CHR ''_'' body) then
           (let n = int (nat_of_digits (filter is_digit body)) in
            Some (if negative then - n else n))
         else None)"

text \<open>\<^verbatim>\<open>str(n)\<close> of an integer.\<close>

function str_nat :: "nat \<Rightarrow> string" where
  "str_nat n =
     (if n < 10 then [''0123456789'' ! n]
      else str_nat (n div 10) @ [''0123456789'' ! (n mod 10)])"
  by pat_completeness auto
termination
  by (relation "measure (\<lambda>n. n)") auto

declare str_nat.simps [simp del]

definition str_int :: "int \<Rightarrow> string" where
  "str_int i = (if i < 0 then ''-'' @ str_nat (nat (- i)) else str_nat (nat i))"

text \<open>\<^verbatim>\<open>verify_size(localpath)\<close>; \<^verbatim>\<open>args.size\<close> is a string when given.\<close>

definition verify_size :: "args \<Rightarrow> string \<Rightarrow> state \<Rightarrow> unit result" where
  "verify_size a localpath st =
     (if truthy (args_size a) then
        (case int_of_str (replace (items (args_size a)) '','' []) of
           None \<Rightarrow> (Inl (ValueError ''size must be an integer''), st)
         | Some size_wanted \<Rightarrow>
             (case getsize st localpath of
                Inl e \<Rightarrow> (Inl e, st)
              | Inr n \<Rightarrow>
                  if int n = size_wanted then (Inr (), st)
                  else (Inl (fail (''file size is not '' @ str_int size_wanted)), st)))
      else (Inr (), st))"

subsection \<open>The whole verification\<close>

text \<open>Running one step after another; an exception ends the sequence.\<close>

definition and_then :: "'a result \<Rightarrow> ('a \<Rightarrow> state \<Rightarrow> 'b result) \<Rightarrow> 'b result" where
  "and_then r f = (case r of (Inl e, st) \<Rightarrow> (Inl e, st) | (Inr x, st) \<Rightarrow> f x st)"

text \<open>\<^verbatim>\<open>os.path.basename\<close>: what follows the last slash.\<close>

definition basename :: "string \<Rightarrow> string" where
  "basename path = rev (takeWhile (\<lambda>c. c \<noteq> CHR ''/'') (rev path))"

definition verify_file :: "world \<Rightarrow> args \<Rightarrow> string \<Rightarrow> state \<Rightarrow> unit result" where
  "verify_file w a local_target st =
     and_then
       (if truthy (args_signedmsg a) \<or> truthy (args_signedhash a) \<or> truthy (args_sig a)
        then get_pubkeys w a (notice ''Verify... '' st)
        else (Inr (), notice ''Verify... '' st))
       (\<lambda>_ st1. and_then (verify_signatures w a local_target st1)
       (\<lambda>_ st2. and_then (verify_signed_hashes w a local_target st2)
       (\<lambda>_ st3. and_then (verify_explicit_hashes w a local_target st3)
       (\<lambda>_ st4. and_then (verify_size a local_target st4)
       (\<lambda>_ st5.
          if truthy (args_after a) \<or> args_run a
          then (Inr (), notice (''Verified '' @ basename local_target @ ''... '') st5)
          else (Inr (), print (''Verified '' @ basename local_target) st5))))))"

definition verify_args :: "world \<Rightarrow> args \<Rightarrow> state \<Rightarrow> unit result" where
  "verify_args w a st =
     (if \<not> (truthy (args_sig a) \<or> truthy (args_signedhash a) \<or> truthy (args_hash a)) then
        (Inl (fail ''File signature, signed hash, or explicit hash required''), st)
      else if truthy (args_size a)
              \<and> \<not> (truthy (args_sig a) \<or> truthy (args_signedhash a) \<or> truthy (args_hash a)) then
        (Inl (fail (''File size alone is not enough verification. ''
                    @ ''File signature, signed hash, or explicit hash required.'')), st)
      else if truthy (args_sig a) \<and> \<not> truthy (args_pubkey a) then
        (Inl (fail ''Detached signature found, but required PGP public key not found.''), st)
      else if truthy (args_signedhash a) \<and> \<not> truthy (args_pubkey a) then
        (Inl (fail ''Signed hash found, but required PGP public key not found.''), st)
      else if truthy (args_pubkey a)
              \<and> \<not> (truthy (args_sig a) \<or> truthy (args_signedmsg a) \<or> truthy (args_signedhash a)) then
        (Inl (fail (''PGP public key found, but you also need to include a file signature ''
                    @ ''(--sig), or signed message (--signedmsg), or signed hash (--signedhash)'')),
         st)
      else verify_source w a (args_target a) st)"

text \<open>
  How \<^verbatim>\<open>start_safeget\<close> ends: it returns, it leaves through \<^verbatim>\<open>sys.exit\<close>, or an
  exception goes on to the caller.
\<close>

datatype outcome = Returned | SystemExit int | Raised error

text \<open>\<^verbatim>\<open>delete_temp_dir()\<close> and \<^verbatim>\<open>more()\<close>.\<close>

definition delete_temp_dir :: "world \<Rightarrow> state \<Rightarrow> state" where
  "delete_temp_dir w st =
     st\<lparr>files := (\<lambda>path. if startswith path (TMP_DIR w @ ''/'') then None else files st path)\<rparr>"

definition more :: "state \<Rightarrow> state" where
  "more st =
     print [NL]
       (print ''Find more safegets at https://github.com/safeapps/open/safeget/custom/''
          (print [NL] st))"

text \<open>
  The body of the \<^verbatim>\<open>try\<close> of \<^verbatim>\<open>start_safeget\<close>. The parser defines neither
  \<^verbatim>\<open>app\<close> nor \<^verbatim>\<open>noselfcheck\<close>, so the two steps asking for them are never taken.
\<close>

definition start_safeget_body :: "world \<Rightarrow> args \<Rightarrow> state \<Rightarrow> unit result" where
  "start_safeget_body w a st =
     and_then (verify_args w a st)
       (\<lambda>_ st1. and_then (install_dependencies w st1)
       (\<lambda>_ st2. and_then
          (if is_url (args_target a) then
             (if testing w \<and> exists_path (notice ''Download... '' st2) (basename (args_target a))
              then (Inr (basename (args_target a)), notice ''Download... '' st2)
              else and_then
                     (download w a (args_target a) (basename (args_target a))
                        (notice ''Download... '' st2))
                     (\<lambda>_ st3. (Inr (basename (args_target a)), st3)))
           else if \<not> exists_path st2 (args_target a)
                then (Inl (fail (''file does not exist: '' @ abspath w (args_target a))), st2)
                else (Inr (args_target a), st2))
       (\<lambda>local_target st3. and_then (verify_file w a local_target st3)
       (\<lambda>_ st4. and_then
          (if args_run a then
             and_then (run_target w (notice ''Run... '' st4))
               (\<lambda>_ st5. (Inr (), print ''Finished.'' st5))
           else (Inr (), st4))
       (\<lambda>_ st5. and_then
          (if truthy (args_after a) then run_command_after w st5 else (Inr (), st5))
       (\<lambda>_ st6. (Inr (), more (if \<not> testing w then delete_temp_dir w st6 else st6))))))))"

text \<open>\<^verbatim>\<open>start_safeget()\<close>: a \<^verbatim>\<open>SafegetException\<close> is printed and ends the run with
  status 1, unless \<^verbatim>\<open>args.debug\<close> is set.\<close>

definition start_safeget :: "world \<Rightarrow> args \<Rightarrow> state \<Rightarrow> outcome \<times> state" where
  "start_safeget w a st =
     (case start_safeget_body w a st of
        (Inr _, st1) \<Rightarrow> (Returned, st1)
      | (Inl (SafegetException sgex), st1) \<Rightarrow>
          if args_debug a then (Raised (SafegetException sgex), st1)
          else (SystemExit 1, print ([NL, NL] @ sgex @ [NL, NL]) st1)
      | (Inl e, st1) \<Rightarrow> (Raised e, st1))"

subsection \<open>A world to run the program in\<close>

text \<open>
  The state at the start of the program, with no file yet, and one world among the many
  the theorems speak of; they serve to run the definitions on concrete inputs. In this
  world a url is cut at \<^verbatim>\<open>://\<close> and at the next \<^verbatim>\<open>/\<close>, \<^verbatim>\<open>?\<close> or \<^verbatim>\<open>#\<close>, as
  \<^verbatim>\<open>urlparse\<close> cuts a url of that form; every request times out; a file is one armored
  block; gpg imports every key, accepts every signed message and rejects every detached
  signature.
\<close>

fun cut_at :: "string \<Rightarrow> string \<Rightarrow> (string \<times> string) option" where
  "cut_at sep [] = (if sep = [] then Some ([], []) else None)"
| "cut_at sep (c # cs) =
     (if startswith (c # cs) sep then Some ([], drop (length sep) (c # cs))
      else (case cut_at sep cs of None \<Rightarrow> None | Some (b, r) \<Rightarrow> Some (c # b, r)))"

definition example_urlparse :: "string \<Rightarrow> error + url_parts" where
  "example_urlparse url =
     (case cut_at ''://'' url of
        None \<Rightarrow> Inr \<lparr>scheme = [], netloc = []\<rparr>
      | Some (s, r) \<Rightarrow> Inr \<lparr>scheme = lower s, netloc = takeWhile (\<lambda>c. c \<notin> set ''/?#'') r\<rparr>)"

definition initial_state :: state where
  "initial_state =
     \<lparr>target_host = None, localpath_hash_cache = Map.empty, files = Map.empty, stdout = [],
      stdin = [], requests = [], keyring = [], names_drawn = 0\<rparr>"

definition example_world :: world where
  "example_world =
     \<lparr>urlparse = example_urlparse,
      urlopen = (\<lambda>url n. URLError ''timed out''),
      algorithms_available = [''md5'', ''SHA256''],
      hashlib_new = (\<lambda>algo. None),
      hexdigest = (\<lambda>algo data. Inr ''EF01''),
      findall = (\<lambda>pattern content. [content]),
      gpg_path = ''gpg'',
      gpg_import = (\<lambda>keys key. None),
      gpg_verify = (\<lambda>keys signature data. Some CalledProcessError),
      gpg_verify_stdin = (\<lambda>keys infile. None),
      utf8 = (\<lambda>data. True),
      abspath = (\<lambda>path. ''/home/user/'' @ path),
      TMP_DIR = ''/tmp/safeget.x'',
      random_string = (\<lambda>n. ''name'' @ str_nat n),
      testing = False,
      install_dependencies = (\<lambda>st. (Inr (), st)),
      run_target = (\<lambda>st. (Inr (), st)),
      run_command_after = (\<lambda>st. (Inr (), st))\<rparr>"

definition example_args :: args where
  "example_args =
     \<lparr>args_target = ''https://example.com/app.tar.gz'', args_size = None, args_hash = None,
      args_pubkey = None, args_sig = None, args_signedmsg = None, args_signedhash = None,
      args_after = None, args_run = False, args_tries = 20, args_verbose = False,
      args_debug = False, args_onehost = False, args_overwrite_ok = True\<rparr>"

subsection \<open>Inputs for the runs\<close>

text \<open>An armored block, longer than 100 bytes, in which a carriage return was escaped
  twice and is followed by the letter n.\<close>

definition doubly_escaped_block :: string where
  "doubly_escaped_block =
     ''-----BEGIN PGP SIGNATURE-----'' @ [BACKSLASH, BACKSLASH, CHR ''r'', CHR ''n'']
     @ ''AAAAAAAAAAAAAAAAAAAAAAAAAAAAAAAAAAAAAAAAAAAAAAAAAAAAAAAAAAAAAAAAAAAAAAAA''
     @ ''-----END PGP SIGNATURE-----''"

text \<open>
  A run with a detached signature as its only means of verification: a local target,
  a file holding a signature and a file holding a key, in the world above, whose gpg
  rejects every detached signature.
\<close>

definition bad_signature :: string where
  "bad_signature =
     ''-----BEGIN PGP SIGNATURE-----'' @ [NL]
     @ ''iQEzBAABCAAdFiEEAAAAAAAAAAAAAAAAAAAAAAAAAAAAAAAAAAAAAAAAAAAAAAAAAAAAAAAAAAAAAAAA''
     @ [NL] @ ''-----END PGP SIGNATURE-----'' @ [NL]"

definition some_key :: string where
  "some_key =
     ''-----BEGIN PGP PUBLIC KEY BLOCK-----'' @ [NL]
     @ ''mQENBFBBBBBBBBBBBBBBBBBBBBBBBBBBBBBBBBBBBBBBBBBBBBBBBBBBBBBBBBBBBBBBBBBBBBBB''
     @ [NL] @ ''-----END PGP PUBLIC KEY BLOCK-----'' @ [NL]"

definition sig_only_args :: args where
  "sig_only_args =
     example_args\<lparr>args_target := ''app.tar.gz'', args_sig := Some [''app.sig''],
                  args_pubkey := Some [''key.asc'']\<rparr>"

definition sig_only_state :: state where
  "sig_only_state =
     initial_state\<lparr>files := [''app.tar.gz'' \<mapsto> ''tampered'', ''app.sig'' \<mapsto> bad_signature,
                             ''key.asc'' \<mapsto> some_key]\<rparr>"








subsection \<open>Notions used in the statements\<close>

text \<open>The reason of a transport-level error, one of the two \<^verbatim>\<open>download_url\<close> traps.\<close>

definition transport_error :: "response \<Rightarrow> string option" where
  "transport_error r =
     (case r of HTTPError reason \<Rightarrow> Some reason | URLError reason \<Rightarrow> Some reason | _ \<Rightarrow> None)"

text \<open>The reason as \<^verbatim>\<open>get_details_for_failure\<close> shows it.\<close>

definition shown_reason :: "string option \<Rightarrow> string" where
  "shown_reason reason =
     (case errno_match (str_reason reason) of
        Some g \<Rightarrow> ''Error: '' @ g
      | None \<Rightarrow> str_reason reason)"









text \<open>From one state to another, only files with a path in \<open>P\<close> were written or removed,
  and the cache of digests and the keys of gpg are the same.\<close>

definition touches_only :: "string set \<Rightarrow> state \<Rightarrow> state \<Rightarrow> bool" where
  "touches_only P s s' =
     ((\<forall>p. p \<notin> P \<longrightarrow> files s' p = files s p)
      \<and> localpath_hash_cache s' = localpath_hash_cache s \<and> keyring s' = keyring s)"

section \<open>Properties\<close>

subsection \<open>Strings\<close>

lemma split_on_length: "length (split_on c s) = Suc (count_list s c)"
  by (induction s) (auto split: list.splits)

lemma split_on_not_Nil: "split_on c s \<noteq> []"
  by (induction s) (auto split: list.splits)

lemma split_on_hd: "hd (split_on c s) = takeWhile (\<lambda>x. x \<noteq> c) s"
  using split_on_not_Nil by (induction s) (auto split: list.splits)

lemma length2_cases: "length xs = Suc (Suc 0) \<Longrightarrow> \<exists>a b. xs = [a, b]"
  by (cases xs; cases "tl xs"; simp)

lemma length3_cases: "Suc (Suc (Suc m)) = length xs \<Longrightarrow> \<exists>a b c r. xs = a # b # c # r"
  by (cases xs; cases "tl xs"; cases "tl (tl xs)"; simp)

lemma parse_host_none:
  "urlparse w url = Inr parts \<Longrightarrow> count_list (netloc parts) CHR '':'' = 0 \<Longrightarrow>
   parse_host w url = Inr (netloc parts)"
  unfolding parse_host_def by (simp add: count_list_0_iff)

lemma parse_host_one:
  assumes "urlparse w url = Inr parts" and "count_list (netloc parts) CHR '':'' = 1"
  shows "parse_host w url = Inr (takeWhile (\<lambda>c. c \<noteq> CHR '':'') (netloc parts))"
proof -
  have "length (split_on CHR '':'' (netloc parts)) = Suc (Suc 0)"
    using assms(2) by (simp add: split_on_length)
  then obtain x y where xy: "split_on CHR '':'' (netloc parts) = [x, y]"
    using length2_cases by blast
  have "hd (split_on CHR '':'' (netloc parts)) = takeWhile (\<lambda>c. c \<noteq> CHR '':'') (netloc parts)"
    by (rule split_on_hd)
  with xy have x: "x = takeWhile (\<lambda>c. c \<noteq> CHR '':'') (netloc parts)" by simp
  have mem: "CHR '':'' \<in> set (netloc parts)"
    using assms(2) count_list_0_iff [of "netloc parts" "CHR '':''"] by simp
  show ?thesis unfolding parse_host_def using assms(1) xy x mem by simp
qed

lemma parse_host_many:
  assumes "urlparse w url = Inr parts" and "2 \<le> count_list (netloc parts) CHR '':''"
  shows "parse_host w url = Inl (ValueError ''too many values to unpack (expected 2)'')"
proof -
  obtain m where "count_list (netloc parts) CHR '':'' = Suc (Suc m)"
    using assms(2) by (metis Suc_le_D numeral_2_eq_2 Suc_le_mono)
  then have "Suc (Suc (Suc m)) = length (split_on CHR '':'' (netloc parts))"
    by (simp add: split_on_length)
  then obtain x y z r where xy: "split_on CHR '':'' (netloc parts) = x # y # z # r"
    using length3_cases by blast
  have mem: "CHR '':'' \<in> set (netloc parts)"
    using assms(2) count_list_0_iff [of "netloc parts" "CHR '':''"] by auto
  show ?thesis unfolding parse_host_def using assms(1) xy mem by simp
qed

lemmas example_simps =
  example_world_def example_urlparse_def example_args_def initial_state_def startswith_def
  lower_def lower_char_def

subsection \<open>The host of a url\<close>

text \<open>
  C10. \<^verbatim>\<open>parse_host\<close> returns a host exactly for the urls whose network location holds
  at most one colon: with no colon the host is the whole network location, with one
  colon it is what stands before the colon, and with two colons or more (an IPv6
  literal with a port, say) the unpacking raises \<^verbatim>\<open>ValueError\<close>, which
  \<^verbatim>\<open>parse_host\<close> does not catch.
\<close>

theorem parse_host_colons:
  assumes "urlparse w url = Inr parts"
  shows "(count_list (netloc parts) CHR '':'' = 0 \<longrightarrow> parse_host w url = Inr (netloc parts))
       \<and> (count_list (netloc parts) CHR '':'' = 1 \<longrightarrow>
            parse_host w url = Inr (takeWhile (\<lambda>c. c \<noteq> CHR '':'') (netloc parts)))
       \<and> (2 \<le> count_list (netloc parts) CHR '':'' \<longrightarrow>
            parse_host w url = Inl (ValueError ''too many values to unpack (expected 2)''))
       \<and> ((\<exists>host. parse_host w url = Inr host) \<longleftrightarrow> count_list (netloc parts) CHR '':'' \<le> 1)"
proof -
  let ?k = "count_list (netloc parts) CHR '':''"
  have c0: "?k = 0 \<longrightarrow> parse_host w url = Inr (netloc parts)"
    using parse_host_none [OF assms] by blast
  have c1: "?k = 1 \<longrightarrow>
            parse_host w url = Inr (takeWhile (\<lambda>c. c \<noteq> CHR '':'') (netloc parts))"
    using parse_host_one [OF assms] by blast
  have c2: "2 \<le> ?k \<longrightarrow>
            parse_host w url = Inl (ValueError ''too many values to unpack (expected 2)'')"
    using parse_host_many [OF assms] by blast
  have total: "(\<exists>host. parse_host w url = Inr host) \<longleftrightarrow> ?k \<le> 1"
  proof (cases "?k \<le> 1")
    case True
    then have "?k = 0 \<or> ?k = 1" by arith
    with c0 c1 True show ?thesis by auto
  next
    case False
    then have "2 \<le> ?k" by arith
    with c2 False show ?thesis by simp
  qed
  from c0 c1 c2 total show ?thesis by blast
qed

theorem parse_host_colons_witness:
  "parse_host example_world ''https://example.com/f'' = Inr ''example.com''
   \<and> parse_host example_world ''https://example.com:8080/f'' = Inr ''example.com''
   \<and> parse_host example_world ''https://[::1]:8080/f''
       = Inl (ValueError ''too many values to unpack (expected 2)'')"
proof -
  have u0: "urlparse example_world ''https://example.com/f''
              = Inr \<lparr>scheme = ''https'', netloc = ''example.com''\<rparr>"
    by (simp add: example_simps)
  have u1: "urlparse example_world ''https://example.com:8080/f''
              = Inr \<lparr>scheme = ''https'', netloc = ''example.com:8080''\<rparr>"
    by (simp add: example_simps)
  have u2: "urlparse example_world ''https://[::1]:8080/f''
              = Inr \<lparr>scheme = ''https'', netloc = ''[::1]:8080''\<rparr>"
    by (simp add: example_simps)
  show ?thesis
    using parse_host_colons [OF u0] parse_host_colons [OF u1] parse_host_colons [OF u2]
    by simp
qed

subsection \<open>Permission to overwrite\<close>

text \<open>
  C9. \<^verbatim>\<open>ok_to_write\<close> never returns \<^verbatim>\<open>False\<close>: for a path that does not exist or
  has size zero it returns \<^verbatim>\<open>True\<close> and neither prints nor reads anything, and when
  the user declines to replace a file that exists and is not empty it raises the failure
  exception instead of returning.
\<close>

theorem ok_to_write_never_False:
  "fst (ok_to_write w path st) \<noteq> Inr False
   \<and> (\<not> exists_path st path \<or> getsize st path = Inr 0 \<longrightarrow>
        ok_to_write w path st = (Inr True, st))
   \<and> (exists_path st path \<and> getsize st path \<noteq> Inr 0 \<and> \<not> testing w
        \<and> stdin st = answer # rest \<and> lower answer \<notin> {''y'', ''yes''} \<longrightarrow>
        fst (ok_to_write w path st) = Inl (fail (''did not replace '' @ abspath w path)))"
  by (auto simp: ok_to_write_def input_def Let_def split: list.splits)

theorem ok_to_write_never_False_witness:
  "ok_to_write example_world ''new'' initial_state = (Inr True, initial_state)
   \<and> fst (ok_to_write example_world ''app''
            (initial_state\<lparr>files := [''app'' \<mapsto> ''data''], stdin := [''No'']\<rparr>))
       = Inl (fail ''did not replace /home/user/app'')"
  using ok_to_write_never_False [of example_world "''new''" initial_state "''No''" "[]"]
        ok_to_write_never_False [of example_world "''app''"
          "initial_state\<lparr>files := [''app'' \<mapsto> ''data''], stdin := [''No'']\<rparr>" "''No''" "[]"]
  by (simp add: exists_path_def getsize_def initial_state_def example_world_def lower_def
        lower_char_def)

subsection \<open>The arguments\<close>

text \<open>
  C2. A request in which the lists of detached signatures, of signed hashes and of
  explicit hashes are all empty is rejected by \<^verbatim>\<open>verify_args\<close>, the first step of
  \<^verbatim>\<open>start_safeget\<close>, with a failure: the state is as before, so no url was requested and
  no file written, and the run ends there. An expected size changes nothing to that.
\<close>

theorem verify_args_requires_a_tier:
  assumes "\<not> truthy (args_sig a)" and "\<not> truthy (args_signedhash a)" and "\<not> truthy (args_hash a)"
  shows "verify_args w a st
           = (Inl (fail ''File signature, signed hash, or explicit hash required''), st)
       \<and> start_safeget_body w a st
           = (Inl (fail ''File signature, signed hash, or explicit hash required''), st)
       \<and> requests (snd (start_safeget w a st)) = requests st
       \<and> files (snd (start_safeget w a st)) = files st
       \<and> fst (start_safeget w a st)
           = (if args_debug a
              then Raised (fail ''File signature, signed hash, or explicit hash required'')
              else SystemExit 1)"
  using assms
  by (simp add: verify_args_def start_safeget_body_def start_safeget_def and_then_def fail_def
        print_def)

theorem verify_args_requires_a_tier_witness:
  "verify_args example_world (example_args\<lparr>args_size := Some ''1024''\<rparr>) initial_state
     = (Inl (fail ''File signature, signed hash, or explicit hash required''), initial_state)
   \<and> fst (start_safeget example_world (example_args\<lparr>args_size := Some ''1024''\<rparr>) initial_state)
     = SystemExit 1
   \<and> requests (snd (start_safeget example_world (example_args\<lparr>args_size := Some ''1024''\<rparr>)
                      initial_state)) = []"
  using verify_args_requires_a_tier
          [where a = "example_args\<lparr>args_size := Some ''1024''\<rparr>" and w = example_world
             and st = initial_state]
  by (simp add: truthy_def example_args_def initial_state_def)

subsection \<open>The policy on sources\<close>

text \<open>
  C5. For a url whose scheme is not one of https, sftp and file, \<^verbatim>\<open>verify_source\<close>
  fails, whatever \<^verbatim>\<open>onehost\<close> says. For a url with such a scheme that is not the
  target and whose host is the trust anchor: without \<^verbatim>\<open>onehost\<close> a warning is printed
  and the validation returns; with \<^verbatim>\<open>onehost\<close> it returns and the state is unchanged.
\<close>

theorem verify_source_same_host:
  assumes "is_url source" and "urlparse w source = Inr parts"
  shows "(scheme parts \<notin> set SAFE_PROTOCOLS \<longrightarrow>
            verify_source w a source st
              = (Inl (fail (''url does not use a safe protocol (https or sftp or file): ''
                            @ source)), st))
       \<and> (scheme parts \<in> set SAFE_PROTOCOLS \<and> source \<noteq> args_target a
            \<and> parse_host w source = Inr host \<and> target_host st = Some host \<and> \<not> args_onehost a \<longrightarrow>
            verify_source w a source st
              = (Inr (),
                 warn (''url is same host as target: '' @ source
                       @ ''. Use --onehost to skip this warning.'')
                   (if args_debug a then print (''target: '' @ args_target a) st else st)))
       \<and> (scheme parts \<in> set SAFE_PROTOCOLS \<and> source \<noteq> args_target a
            \<and> parse_host w source = Inr host \<and> target_host st = Some host \<and> args_onehost a \<longrightarrow>
            verify_source w a source st = (Inr (), st))"
  using assms by (simp add: verify_source_def SAFE_PROTOCOLS_def)

theorem verify_source_same_host_witness:
  "verify_source example_world example_args ''http://example.com/app.sig''
     (initial_state\<lparr>target_host := Some ''example.com''\<rparr>)
     = (Inl (fail (''url does not use a safe protocol (https or sftp or file): ''
                   @ ''http://example.com/app.sig'')),
        initial_state\<lparr>target_host := Some ''example.com''\<rparr>)
   \<and> verify_source example_world example_args ''https://example.com/app.sig''
     (initial_state\<lparr>target_host := Some ''example.com''\<rparr>)
     = (Inr (),
        initial_state\<lparr>target_host := Some ''example.com'',
          stdout := [NL] @ ''Warning: url is same host as target: https://example.com/app.sig''
                    @ ''. Use --onehost to skip this warning.'' @ [NL]\<rparr>)
   \<and> verify_source example_world (example_args\<lparr>args_onehost := True\<rparr>)
       ''https://example.com/app.sig'' (initial_state\<lparr>target_host := Some ''example.com''\<rparr>)
     = (Inr (), initial_state\<lparr>target_host := Some ''example.com''\<rparr>)"
proof -
  have u: "is_url ''http://example.com/app.sig''" "is_url ''https://example.com/app.sig''"
    by (simp_all add: is_url_def startswith_def)
  have p1: "urlparse example_world ''http://example.com/app.sig''
              = Inr \<lparr>scheme = ''http'', netloc = ''example.com''\<rparr>"
    by (simp add: example_simps)
  have p2: "urlparse example_world ''https://example.com/app.sig''
              = Inr \<lparr>scheme = ''https'', netloc = ''example.com''\<rparr>"
    by (simp add: example_simps)
  have h: "parse_host example_world ''https://example.com/app.sig'' = Inr ''example.com''"
    by (simp add: parse_host_def p2)
  show ?thesis
    using verify_source_same_host [OF u(1) p1, where a = example_args
            and st = "initial_state\<lparr>target_host := Some ''example.com''\<rparr>"
            and host = "''example.com''"]
          verify_source_same_host [OF u(2) p2, where a = example_args
            and st = "initial_state\<lparr>target_host := Some ''example.com''\<rparr>"
            and host = "''example.com''"]
          verify_source_same_host [OF u(2) p2, where a = "example_args\<lparr>args_onehost := True\<rparr>"
            and st = "initial_state\<lparr>target_host := Some ''example.com''\<rparr>"
            and host = "''example.com''"]
          h
    by (simp add: SAFE_PROTOCOLS_def example_args_def initial_state_def warn_def print_def)
qed

lemma verify_source_keeps_anchor:
  "target_host st = Some h \<Longrightarrow> target_host (snd (verify_source w a source st)) = Some h"
  by (simp add: verify_source_def warn_def print_def split: sum.splits)

lemma verify_source_url_before_target:
  "target_host st = None \<Longrightarrow> is_url source \<Longrightarrow> source \<noteq> args_target a \<Longrightarrow>
   \<exists>e. verify_source w a source st = (Inl e, st)"
  by (simp add: verify_source_def split: sum.splits)

lemma verify_source_sets_anchor:
  "target_host st = None \<Longrightarrow> is_url source \<Longrightarrow> fst (verify_source w a source st) = Inr () \<Longrightarrow>
   source = args_target a
   \<and> (\<exists>host. parse_host w source = Inr host
          \<and> target_host (snd (verify_source w a source st)) = Some host)"
  by (auto simp: verify_source_def warn_def print_def split: sum.splits if_splits)

lemma verify_source_local:
  "\<not> is_url source \<Longrightarrow>
   fst (verify_source w a source st) = Inr ()
   \<and> target_host (snd (verify_source w a source st))
       = (case target_host st of None \<Rightarrow> Some (args_target a) | Some h \<Rightarrow> Some h)"
  by (simp add: verify_source_def split: option.splits)

text \<open>
  C4, as amended. Once set, \<^verbatim>\<open>target_host\<close> is never assigned again. While it is unset,
  validating a url that is not the target fails and leaves it unset (with the message
  that the target must be verified first, when the scheme is allowed and the host
  parses); a url whose validation then succeeds is the target, and its host becomes the
  anchor. A source that is not a url never fails; while the anchor is unset it sets the
  anchor to \<^verbatim>\<open>args.target\<close>.
\<close>

theorem target_host_write_once:
  "(target_host st = Some h \<longrightarrow> target_host (snd (verify_source w a source st)) = Some h)
   \<and> (target_host st = None \<and> is_url source \<and> source \<noteq> args_target a \<longrightarrow>
        (\<exists>e. verify_source w a source st = (Inl e, st)))
   \<and> (target_host st = None \<and> is_url source \<and> source \<noteq> args_target a
        \<and> urlparse w source = Inr parts \<and> scheme parts \<in> set SAFE_PROTOCOLS
        \<and> parse_host w source = Inr host \<longrightarrow>
        verify_source w a source st
          = (Inl (fail ''safeget error: target source must be verified first''), st))
   \<and> (target_host st = None \<and> is_url source \<and> fst (verify_source w a source st) = Inr () \<longrightarrow>
        source = args_target a
        \<and> (\<exists>host. parse_host w source = Inr host
               \<and> target_host (snd (verify_source w a source st)) = Some host))
   \<and> (\<not> is_url source \<longrightarrow>
        fst (verify_source w a source st) = Inr ()
        \<and> target_host (snd (verify_source w a source st))
            = (case target_host st of None \<Rightarrow> Some (args_target a) | Some h \<Rightarrow> Some h))"
proof -
  have "target_host st = None \<and> is_url source \<and> source \<noteq> args_target a
        \<and> urlparse w source = Inr parts \<and> scheme parts \<in> set SAFE_PROTOCOLS
        \<and> parse_host w source = Inr host \<longrightarrow>
        verify_source w a source st
          = (Inl (fail ''safeget error: target source must be verified first''), st)"
    by (simp add: verify_source_def)
  then show ?thesis
    using verify_source_keeps_anchor [of st h w a source]
          verify_source_url_before_target [of st source a w]
          verify_source_sets_anchor [of st source w a]
          verify_source_local [of source w a st]
    by blast
qed

text \<open>
  C4 as stated fails for a local path: validated before the target, a path that is not
  the target does not fail, and sets the anchor.
\<close>

theorem target_host_local_source_counterexample:
  "target_host initial_state = None
   \<and> ''keys/app.sig'' \<noteq> args_target example_args
   \<and> verify_source example_world example_args ''keys/app.sig'' initial_state
       = (Inr (), initial_state\<lparr>target_host := Some ''https://example.com/app.tar.gz''\<rparr>)"
  by (simp add: verify_source_def is_url_def startswith_def initial_state_def example_args_def)

theorem target_host_write_once_witness:
  "target_host (snd (verify_source example_world example_args ''https://example.com/app.sig''
                       (initial_state\<lparr>target_host := Some ''example.com''\<rparr>)))
     = Some ''example.com''
   \<and> verify_source example_world example_args ''https://mirror.org/app.sig'' initial_state
     = (Inl (fail ''safeget error: target source must be verified first''), initial_state)
   \<and> target_host (snd (verify_source example_world example_args ''keys/app.sig'' initial_state))
     = Some ''https://example.com/app.tar.gz''"
proof -
  have u: "is_url ''https://mirror.org/app.sig''" "\<not> is_url ''keys/app.sig''"
    by (simp_all add: is_url_def startswith_def)
  have p: "urlparse example_world ''https://mirror.org/app.sig''
             = Inr \<lparr>scheme = ''https'', netloc = ''mirror.org''\<rparr>"
    by (simp add: example_simps)
  have h: "parse_host example_world ''https://mirror.org/app.sig'' = Inr ''mirror.org''"
    by (simp add: parse_host_def p)
  show ?thesis
    using target_host_write_once [where st = "initial_state\<lparr>target_host := Some ''example.com''\<rparr>"
            and h = "''example.com''" and w = example_world and a = example_args
            and source = "''https://example.com/app.sig''"]
          target_host_write_once [where st = initial_state and w = example_world
            and a = example_args and source = "''https://mirror.org/app.sig''"
            and parts = "\<lparr>scheme = ''https'', netloc = ''mirror.org''\<rparr>"
            and host = "''mirror.org''"]
          target_host_write_once [where st = initial_state and w = example_world
            and a = example_args and source = "''keys/app.sig''"]
          u p h
    by (simp add: SAFE_PROTOCOLS_def example_args_def initial_state_def)
qed

subsection \<open>Downloads\<close>

lemma startswith_iff: "startswith s p \<longleftrightarrow> (\<exists>q. s = p @ q)"
  unfolding startswith_def
  by (metis append_eq_conv_conj append_take_drop_id)

lemma contains_iff: "contains sub s \<longleftrightarrow> (\<exists>p q. s = p @ sub @ q)"
proof (induction s)
  case Nil
  then show ?case by auto
next
  case (Cons c cs)
  show ?case
  proof
    assume "contains sub (c # cs)"
    then consider "startswith (c # cs) sub" | "contains sub cs" by auto
    then show "\<exists>p q. c # cs = p @ sub @ q"
    proof cases
      case 1
      then obtain q where "c # cs = sub @ q" using startswith_iff by blast
      then have "c # cs = [] @ sub @ q" by simp
      then show ?thesis by blast
    next
      case 2
      then obtain p q where "cs = p @ sub @ q" using Cons.IH by blast
      then have "c # cs = (c # p) @ sub @ q" by simp
      then show ?thesis by blast
    qed
  next
    assume "\<exists>p q. c # cs = p @ sub @ q"
    then obtain p q where pq: "c # cs = p @ sub @ q" by blast
    show "contains sub (c # cs)"
    proof (cases p)
      case Nil
      with pq have "startswith (c # cs) sub" using startswith_iff by auto
      then show ?thesis by simp
    next
      case (Cons x p')
      with pq have "cs = p' @ sub @ q" by simp
      then have "contains sub cs" using Cons.IH by blast
      then show ?thesis by simp
    qed
  qed
qed

lemma contains_middle: "contains sub (p @ sub @ q)"
  using contains_iff by blast

lemma download_loop_all_fail:
  "\<forall>n. transport_error (urlopen w url n) \<noteq> None \<Longrightarrow> \<not> ok \<Longrightarrow> attempts \<le> max_tries \<Longrightarrow>
         download_loop w url localpath max_tries attempts ok reason st
           = (Inr (False,
                   (if attempts < max_tries
                    then transport_error
                           (urlopen w url (length (requests st) + nat (max_tries - attempts) - 1))
                    else reason),
                   max_tries),
              st\<lparr>requests := requests st @ replicate (nat (max_tries - attempts)) url\<rparr>)"
proof (induction w url localpath max_tries attempts ok reason st rule: download_loop.induct)
  case (1 w url localpath max_tries attempts ok reason st)
  show ?case
  proof (cases "attempts < max_tries")
    case False
    with "1.prems" have "attempts = max_tries" by simp
    then show ?thesis using "1.prems" by (simp add: download_loop.simps)
  next
    case True
    let ?st1 = "st\<lparr>requests := requests st @ [url]\<rparr>"
    from "1.prems"(1) obtain r where r: "transport_error (urlopen w url (length (requests st))) = Some r"
      by blast
    then have du: "download_url w url localpath st = (Inr (False, Some r), ?st1)"
      by (auto simp: download_url_def transport_error_def split: response.splits)
    have IH: "download_loop w url localpath max_tries (attempts + 1) False (Some r) ?st1
                = (Inr (False,
                     (if attempts + 1 < max_tries
                      then transport_error
                             (urlopen w url (length (requests ?st1) + nat (max_tries - (attempts + 1)) - 1))
                      else Some r),
                     max_tries),
                   ?st1\<lparr>requests := requests ?st1 @ replicate (nat (max_tries - (attempts + 1))) url\<rparr>)"
      using "1.IH" [OF _ du [symmetric] refl refl] True "1.prems"
      by simp
    have n: "nat (max_tries - attempts) = Suc (nat (max_tries - (attempts + 1)))"
      using True by simp
    have unfold: "download_loop w url localpath max_tries attempts ok reason st
            = download_loop w url localpath max_tries (attempts + 1) False (Some r) ?st1"
      using True "1.prems" du by (subst download_loop.simps) simp
    show ?thesis
    proof (cases "attempts + 1 < max_tries")
      case True
      then show ?thesis
        unfolding unfold IH using n \<open>attempts < max_tries\<close>
        by (simp add: replicate_append_same)
    next
      case False
      with \<open>attempts < max_tries\<close> have e: "max_tries = attempts + 1" by simp
      show ?thesis unfolding unfold IH using r by (simp add: e)
    qed
  qed
qed

text \<open>
  C6, as amended. When every request for the url ends in a transport-level error, the
  download is allowed and the source is valid, the url is requested exactly
  \<^verbatim>\<open>args.tries\<close> times and the download fails; the message holds the url, the last
  reason (with \<^verbatim>\<open>Error:\<close> in place of \<^verbatim>\<open>[Errno n]\<close>) and the suggestion. The number of
  attempts is not in the message.
\<close>

theorem download_retries_exhausted:
  assumes "\<forall>n. transport_error (urlopen w url n) \<noteq> None"
    and "(if args_overwrite_ok a then (Inr True, st) else ok_to_write w localpath st)
           = (Inr True, st1)"
    and "verify_source w a url st1 = (Inr (), st2)"
    and "0 \<le> args_tries a"
    and "reason = (if 0 < args_tries a
                   then transport_error
                          (urlopen w url (length (requests st2) + nat (args_tries a) - 1))
                   else None)"
  shows "download w a url localpath st
           = (Inl (fail (get_details_for_failure url (args_tries a) reason)),
              st2\<lparr>requests := requests st2 @ replicate (nat (args_tries a)) url\<rparr>)
       \<and> get_details_for_failure url (args_tries a) reason
           = ''Unable to safely get '' @ url @ ''.'' @ [NL, TAB] @ shown_reason reason
             @ [NL, TAB] @ ''Suggestions: Check connections or try again later.''
       \<and> contains url (get_details_for_failure url (args_tries a) reason)
       \<and> contains (shown_reason reason) (get_details_for_failure url (args_tries a) reason)
       \<and> contains ''Suggestions: Check connections or try again later.''
            (get_details_for_failure url (args_tries a) reason)"
proof -
  have loop: "download_loop w url localpath (args_tries a) 0 False None st2
                = (Inr (False, reason, args_tries a),
                   st2\<lparr>requests := requests st2 @ replicate (nat (args_tries a)) url\<rparr>)"
    using download_loop_all_fail [OF assms(1), of False 0 "args_tries a" localpath None st2]
          assms(4,5)
    by simp
  have d: "download w a url localpath st
           = (Inl (fail (get_details_for_failure url (args_tries a) reason)),
              st2\<lparr>requests := requests st2 @ replicate (nat (args_tries a)) url\<rparr>)"
    unfolding download_def using assms(2,3) loop by simp
  have m: "get_details_for_failure url (args_tries a) reason
           = ''Unable to safely get '' @ url @ ''.'' @ [NL, TAB] @ shown_reason reason
             @ [NL, TAB] @ ''Suggestions: Check connections or try again later.''"
    by (simp add: get_details_for_failure_def shown_reason_def Let_def)
  have c1: "contains url (get_details_for_failure url (args_tries a) reason)"
    unfolding m by (rule contains_middle)
  have c2: "contains (shown_reason reason) (get_details_for_failure url (args_tries a) reason)"
    using contains_middle [of "shown_reason reason" "''Unable to safely get '' @ url @ ''.'' @ [NL, TAB]"
            "[NL, TAB] @ ''Suggestions: Check connections or try again later.''"]
    unfolding m by simp
  have c3: "contains ''Suggestions: Check connections or try again later.''
              (get_details_for_failure url (args_tries a) reason)"
    using contains_middle [of "''Suggestions: Check connections or try again later.''"
            "''Unable to safely get '' @ url @ ''.'' @ [NL, TAB] @ shown_reason reason @ [NL, TAB]" "[]"]
    unfolding m by simp
  from d m c1 c2 c3 show ?thesis by blast
qed

lemma example_download:
  "download example_world (example_args\<lparr>args_tries := 3\<rparr>) ''https://example.com/app.tar.gz''
     ''app.tar.gz'' initial_state
   = (Inl (fail (''Unable to safely get https://example.com/app.tar.gz.'' @ [NL, TAB]
                 @ ''timed out'' @ [NL, TAB]
                 @ ''Suggestions: Check connections or try again later.'')),
      initial_state\<lparr>target_host := Some ''example.com'',
        requests := [''https://example.com/app.tar.gz'', ''https://example.com/app.tar.gz'',
                     ''https://example.com/app.tar.gz'']\<rparr>)"
proof -
  have u: "is_url ''https://example.com/app.tar.gz''"
    by (simp add: is_url_def startswith_def)
  have p: "urlparse example_world ''https://example.com/app.tar.gz''
             = Inr \<lparr>scheme = ''https'', netloc = ''example.com''\<rparr>"
    by (simp add: example_simps)
  have h: "parse_host example_world ''https://example.com/app.tar.gz'' = Inr ''example.com''"
    by (simp add: parse_host_def p)
  have vs: "verify_source example_world (example_args\<lparr>args_tries := 3\<rparr>)
              ''https://example.com/app.tar.gz'' initial_state
            = (Inr (), initial_state\<lparr>target_host := Some ''example.com''\<rparr>)"
    by (simp add: verify_source_def u p h SAFE_PROTOCOLS_def example_args_def initial_state_def)
  have t: "\<forall>n. transport_error (urlopen example_world ''https://example.com/app.tar.gz'' n) \<noteq> None"
    by (simp add: example_world_def transport_error_def)
  have loop: "download_loop example_world ''https://example.com/app.tar.gz'' ''app.tar.gz'' 3 0
                False None (initial_state\<lparr>target_host := Some ''example.com''\<rparr>)
              = (Inr (False, Some ''timed out'', 3),
                 initial_state\<lparr>target_host := Some ''example.com'',
                   requests := [''https://example.com/app.tar.gz'',
                     ''https://example.com/app.tar.gz'', ''https://example.com/app.tar.gz'']\<rparr>)"
    using download_loop_all_fail [OF t, of False 0 3 "''app.tar.gz''" None
            "initial_state\<lparr>target_host := Some ''example.com''\<rparr>"]
    by (simp add: example_world_def transport_error_def initial_state_def numeral_3_eq_3)
  have e: "errno_match ''timed out'' = None"
    by (simp add: errno_match_def startswith_def)
  have ov: "args_overwrite_ok (example_args\<lparr>args_tries := 3\<rparr>)"
    by (simp add: example_args_def)
  show ?thesis
    unfolding download_def
    by (simp add: ov vs loop get_details_for_failure_def str_reason_def e)
qed

text \<open>
  C6 as stated fails on the message: after three failed attempts it does not hold the
  number of attempts.
\<close>

theorem download_message_counterexample:
  "fst (download example_world (example_args\<lparr>args_tries := 3\<rparr>)
          ''https://example.com/app.tar.gz'' ''app.tar.gz'' initial_state)
     = Inl (SafegetException
              (''Failed: Unable to safely get https://example.com/app.tar.gz.'' @ [NL, TAB]
               @ ''timed out'' @ [NL, TAB]
               @ ''Suggestions: Check connections or try again later.''))
   \<and> length (requests (snd (download example_world (example_args\<lparr>args_tries := 3\<rparr>)
          ''https://example.com/app.tar.gz'' ''app.tar.gz'' initial_state))) = 3
   \<and> \<not> contains ''3''
         (''Failed: Unable to safely get https://example.com/app.tar.gz.'' @ [NL, TAB]
          @ ''timed out'' @ [NL, TAB]
          @ ''Suggestions: Check connections or try again later.'')"
  by (simp add: example_download fail_def startswith_def NL_def TAB_def)

theorem download_retries_exhausted_witness:
  "download example_world (example_args\<lparr>args_tries := 3\<rparr>) ''https://example.com/app.tar.gz''
     ''app.tar.gz'' initial_state
   = (Inl (fail (''Unable to safely get https://example.com/app.tar.gz.'' @ [NL, TAB]
                 @ ''timed out'' @ [NL, TAB]
                 @ ''Suggestions: Check connections or try again later.'')),
      initial_state\<lparr>target_host := Some ''example.com'',
        requests := replicate 3 ''https://example.com/app.tar.gz''\<rparr>)"
proof -
  have u: "is_url ''https://example.com/app.tar.gz''"
    by (simp add: is_url_def startswith_def)
  have p: "urlparse example_world ''https://example.com/app.tar.gz''
             = Inr \<lparr>scheme = ''https'', netloc = ''example.com''\<rparr>"
    by (simp add: example_simps)
  have h: "parse_host example_world ''https://example.com/app.tar.gz'' = Inr ''example.com''"
    by (simp add: parse_host_def p)
  have vs: "verify_source example_world (example_args\<lparr>args_tries := 3\<rparr>)
              ''https://example.com/app.tar.gz'' initial_state
            = (Inr (), initial_state\<lparr>target_host := Some ''example.com''\<rparr>)"
    by (simp add: verify_source_def u p h SAFE_PROTOCOLS_def example_args_def initial_state_def)
  have t: "\<forall>n. transport_error (urlopen example_world ''https://example.com/app.tar.gz'' n) \<noteq> None"
    by (simp add: example_world_def transport_error_def)
  have go: "(if args_overwrite_ok (example_args\<lparr>args_tries := 3\<rparr>) then (Inr True, initial_state)
             else ok_to_write example_world ''app.tar.gz'' initial_state)
            = (Inr True, initial_state)"
    by (simp add: example_args_def)
  have tries: "0 \<le> args_tries (example_args\<lparr>args_tries := 3\<rparr>)" by simp
  have e: "errno_match ''timed out'' = None"
    by (simp add: errno_match_def startswith_def)
  show ?thesis
    using download_retries_exhausted [OF t go vs tries refl]
    by (simp add: example_world_def transport_error_def initial_state_def
          get_details_for_failure_def str_reason_def e)
qed

subsection \<open>Cleaning an armored block\<close>

text \<open>
  C8. The claim is that the assertion of \<^verbatim>\<open>clean_gpg_data\<close> holds for every text. It
  does not: removing an escaped carriage return can bring a backslash and an n
  together, after the escaped newlines were replaced. On the block below, of 132 bytes,
  the assertion fails and the file is left as it was.
\<close>

theorem clean_gpg_data_assertion_fails:
  "length doubly_escaped_block = 132
   \<and> fst (clean_gpg_data example_world ''sig.asc''
            (initial_state\<lparr>files := [''sig.asc'' \<mapsto> doubly_escaped_block]\<rparr>))
       = Inl AssertionError
   \<and> files (snd (clean_gpg_data example_world ''sig.asc''
                   (initial_state\<lparr>files := [''sig.asc'' \<mapsto> doubly_escaped_block]\<rparr>)))
        ''sig.asc''
       = Some doubly_escaped_block"
  by (simp add: clean_gpg_data_def getsize_def readfile_def doubly_escaped_block_def replace_def
        startswith_def initial_state_def example_world_def BACKSLASH_def NL_def CR_def)

subsection \<open>Detached signatures\<close>

text \<open>
  C1. The claim is that a run whose only tier is the detached signature fails when no
  candidate signature verifies. \<^verbatim>\<open>verify_signatures\<close> keeps no record of what gpg
  answered: in the run below gpg rejects the only signature, and still
  \<^verbatim>\<open>verify_file\<close> returns, the run ends normally and prints that the file is verified.
\<close>

theorem unverified_signature_reported_verified:
  "gpg_verify example_world [some_key] bad_signature ''tampered'' = Some CalledProcessError
   \<and> truthy (args_sig sig_only_args) \<and> \<not> truthy (args_signedhash sig_only_args)
   \<and> \<not> truthy (args_hash sig_only_args) \<and> \<not> truthy (args_size sig_only_args)
   \<and> fst (verify_signatures example_world sig_only_args ''app.tar.gz'' sig_only_state) = Inr ()
   \<and> fst (verify_file example_world sig_only_args ''app.tar.gz'' sig_only_state) = Inr ()
   \<and> fst (start_safeget example_world sig_only_args sig_only_state) = Returned
   \<and> contains ''Verified app.tar.gz''
        (stdout (snd (start_safeget example_world sig_only_args sig_only_state)))"
  by code_simp

subsection \<open>The target and its digest\<close>









subsection \<open>Explicit hashes\<close>









subsection \<open>Signed hashes\<close>



lemma touches_only_mono: "touches_only P s s' \<Longrightarrow> P \<subseteq> Q \<Longrightarrow> touches_only Q s s'"
  unfolding touches_only_def by (metis subsetD)











lemma safeget_run_None: "safeget_run w raised = None \<longleftrightarrow> raised = None"
  by (auto simp: safeget_run_def split: option.splits error.splits)
























end
